theory Spec2Isabelle
  imports Main
begin

section \<open>Acyclic directed mixed graphs (pywhy\_graphs/admg.py)\<close>

text \<open>
  The module defines two classes: \<^verbatim>\<open>AncestralMixin\<close> (ancestor, descendant, parent and
  child queries) and \<^verbatim>\<open>ADMG(MixedEdgeGraph, AncestralMixin)\<close>. The graphs themselves are
  networkx objects (\<^verbatim>\<open>nx.DiGraph\<close>, \<^verbatim>\<open>nx.Graph\<close>); the registry of edge types is
  inherited from \<^verbatim>\<open>MixedEdgeGraph\<close>.

  Graph objects are mutable and shared by reference, so the model keeps them in an
  explicit store and lets the registry hold addresses. Exceptions are values of a sum
  type, \<open>Inl\<close> carrying the exception.
\<close>

subsection \<open>Exceptions\<close>

text \<open>
  \<^item> \<open>RuntimeError\<close>: raised by line 124 of admg.py (the specification calls it NotADAGError);
  \<^item> \<open>NetworkXError\<close>: raised by networkx when a queried node is not in the graph
    (the specification calls it NodeNotFoundError);
  \<^item> \<open>NetworkXNotImplemented\<close>: raised by networkx when an algorithm for undirected
    graphs is given a directed one;
  \<^item> \<open>AttributeError\<close>: raised by Python when an object lacks the attribute that is looked up;
  \<^item> \<open>DuplicateEdgeTypeError\<close>, \<open>UnknownEdgeTypeError\<close>: raised by the registry of
    \<^verbatim>\<open>MixedEdgeGraph\<close>.
\<close>

datatype error =
    RuntimeError
  | NetworkXError
  | NetworkXNotImplemented
  | AttributeError
  | DuplicateEdgeTypeError
  | UnknownEdgeTypeError

subsection \<open>networkx graph objects\<close>

text \<open>
  networkx is an external library; its operations are modelled by their documented
  behaviour. A graph object holds its nodes in insertion order and, for every node, its
  adjacency. \<open>adj_list\<close> lists the pairs \<open>(u, v)\<close> with \<open>v\<close> in \<^verbatim>\<open>G._adj[u]\<close>: the
  successor relation of a \<^verbatim>\<open>DiGraph\<close>, and both orientations of every edge of a
  \<^verbatim>\<open>Graph\<close>.
\<close>

record 'n nxgraph =
  is_directed :: bool
  node_list :: "'n list"
  adj_list :: "('n \<times> 'n) list"

definition empty_graph :: "bool \<Rightarrow> 'n nxgraph" where
  "empty_graph dir = \<lparr>is_directed = dir, node_list = [], adj_list = []\<rparr>"

definition add_node :: "'n nxgraph \<Rightarrow> 'n \<Rightarrow> 'n nxgraph" where
  "add_node G n = (if n \<in> set (node_list G) then G else G\<lparr>node_list := node_list G @ [n]\<rparr>)"

definition add_adj :: "'n nxgraph \<Rightarrow> 'n \<Rightarrow> 'n \<Rightarrow> 'n nxgraph" where
  "add_adj G u v =
     (if (u, v) \<in> set (adj_list G) then G else G\<lparr>adj_list := adj_list G @ [(u, v)]\<rparr>)"

text \<open>
  \<^verbatim>\<open>G.add_edge(u, v)\<close> adds both end points when they are missing, then records \<open>v\<close> as
  adjacent to \<open>u\<close>, and for an undirected graph also \<open>u\<close> as adjacent to \<open>v\<close>. Nothing
  rejects \<open>u = v\<close>: networkx graphs admit self-loops.
\<close>

definition add_edge :: "'n nxgraph \<Rightarrow> 'n \<Rightarrow> 'n \<Rightarrow> 'n nxgraph" where
  "add_edge G u v =
     (let G1 = add_adj (add_node (add_node G u) v) u v
      in if is_directed G then G1 else add_adj G1 v u)"

definition add_nodes_from :: "'n nxgraph \<Rightarrow> 'n list \<Rightarrow> 'n nxgraph" where
  "add_nodes_from G ns = fold (\<lambda>n H. add_node H n) ns G"

definition add_edges_from :: "'n nxgraph \<Rightarrow> ('n \<times> 'n) list \<Rightarrow> 'n nxgraph" where
  "add_edges_from G es = fold (\<lambda>(u, v) H. add_edge H u v) es G"

text \<open>
  \<^verbatim>\<open>G.edges\<close> as the relation it decides: \<^verbatim>\<open>(u, v) in G.edges\<close>.
\<close>

definition edges :: "'n nxgraph \<Rightarrow> ('n \<times> 'n) set" where
  "edges G = set (adj_list G)"

definition nodes_of :: "'n nxgraph \<Rightarrow> 'n set" where
  "nodes_of G = set (node_list G)"

subsection \<open>The object store\<close>

text \<open>
  Addresses below \<open>next_free\<close> hold the live objects; creating an object takes the next
  address.
\<close>

type_synonym addr = nat

record 'n store =
  objs :: "addr \<Rightarrow> 'n nxgraph"
  next_free :: addr

definition new_object :: "'n store \<Rightarrow> 'n nxgraph \<Rightarrow> addr \<times> 'n store" where
  "new_object s G =
     (next_free s, s\<lparr>objs := (objs s)(next_free s := G), next_free := Suc (next_free s)\<rparr>)"

definition store0 :: "'n store" where
  "store0 = \<lparr>objs = (\<lambda>_. empty_graph False), next_free = 0\<rparr>"

text \<open>A caller changing the object at address \<open>a\<close> in any way.\<close>

definition mutate :: "'n store \<Rightarrow> addr \<Rightarrow> 'n nxgraph \<Rightarrow> 'n store" where
  "mutate s a G = s\<lparr>objs := (objs s)(a := G)\<rparr>"

subsection \<open>Graph constructors\<close>

text \<open>
  \<^verbatim>\<open>nx.DiGraph(data)\<close> and \<^verbatim>\<open>nx.Graph(data)\<close> create an empty graph and, unless \<open>data\<close> is
  \<^verbatim>\<open>None\<close>, fill it through \<^verbatim>\<open>to_networkx_graph\<close>: an edge list goes to
  \<^verbatim>\<open>add_edges_from\<close>; a dict of lists adds its keys as nodes and then an edge for every
  listed neighbour; a graph object adds that object's nodes and then an edge for every
  entry of its adjacency.
\<close>

datatype 'n graph_data =
    NoData
  | EdgeList "('n \<times> 'n) list"
  | DictOfLists "('n \<times> 'n list) list"
  | GraphObject addr

fun data_nodes :: "'n store \<Rightarrow> 'n graph_data \<Rightarrow> 'n list" where
  "data_nodes s NoData = []"
| "data_nodes s (EdgeList es) = []"
| "data_nodes s (DictOfLists d) = map fst d"
| "data_nodes s (GraphObject a) = node_list (objs s a)"

fun data_pairs :: "'n store \<Rightarrow> 'n graph_data \<Rightarrow> ('n \<times> 'n) list" where
  "data_pairs s NoData = []"
| "data_pairs s (EdgeList es) = es"
| "data_pairs s (DictOfLists d) = concat (map (\<lambda>(u, vs). map (Pair u) vs) d)"
| "data_pairs s (GraphObject a) = adj_list (objs s a)"

definition to_networkx_graph :: "'n store \<Rightarrow> 'n graph_data \<Rightarrow> 'n nxgraph \<Rightarrow> 'n nxgraph" where
  "to_networkx_graph s data G = add_edges_from (add_nodes_from G (data_nodes s data)) (data_pairs s data)"

definition nx_DiGraph :: "'n store \<Rightarrow> 'n graph_data \<Rightarrow> addr \<times> 'n store" where
  "nx_DiGraph s data = new_object s (to_networkx_graph s data (empty_graph True))"

definition nx_Graph :: "'n store \<Rightarrow> 'n graph_data \<Rightarrow> addr \<times> 'n store" where
  "nx_Graph s data = new_object s (to_networkx_graph s data (empty_graph False))"

text \<open>
  A graph object given as data is one of the caller's live objects.
\<close>

fun data_live :: "'n store \<Rightarrow> 'n graph_data \<Rightarrow> bool" where
  "data_live s (GraphObject a) = (a < next_free s)"
| "data_live s NoData = True"
| "data_live s (EdgeList es) = True"
| "data_live s (DictOfLists d) = True"

subsection \<open>Python values handed to networkx\<close>

text \<open>
  An expression of admg.py that should denote a graph evaluates either to a graph object
  or, where the accessor method is named without being called, to the bound method.
\<close>

datatype pyval =
    GraphRef addr
  | BoundMethod string

subsection \<open>networkx algorithms\<close>

text \<open>
  \<^verbatim>\<open>nx.is_directed_acyclic_graph(G)\<close> is \<^verbatim>\<open>G.is_directed() and not has_cycle(G)\<close>.
  Every algorithm starts by asking its argument for a graph attribute or method
  (\<^verbatim>\<open>is_directed\<close>, \<^verbatim>\<open>has_node\<close>, the adjacency), which a bound method does not
  have: the call ends in \<open>AttributeError\<close> before any graph is looked at. (A networkx
  version that first tests \<^verbatim>\<open>source in G\<close> ends in \<^verbatim>\<open>TypeError\<close> instead; no version
  returns a result.)
\<close>

definition nx_is_directed_acyclic_graph :: "'n store \<Rightarrow> pyval \<Rightarrow> error + bool" where
  "nx_is_directed_acyclic_graph s G =
     (case G of
        BoundMethod m \<Rightarrow> Inl AttributeError
      | GraphRef a \<Rightarrow> Inr (is_directed (objs s a) \<and> acyclic (edges (objs s a))))"

text \<open>
  \<^verbatim>\<open>nx.ancestors(G, source)\<close>: the nodes with a path to \<open>source\<close>, without \<open>source\<close>;
  \<^verbatim>\<open>nx.descendants(G, source)\<close>: the nodes with a path from \<open>source\<close>, without
  \<open>source\<close>. Both raise \<^verbatim>\<open>NetworkXError\<close> when \<open>source\<close> is not a node of \<open>G\<close>.
\<close>

definition nx_ancestors :: "'n store \<Rightarrow> pyval \<Rightarrow> 'n \<Rightarrow> error + 'n set" where
  "nx_ancestors s G source =
     (case G of
        BoundMethod m \<Rightarrow> Inl AttributeError
      | GraphRef a \<Rightarrow>
          if source \<notin> nodes_of (objs s a) then Inl NetworkXError
          else Inr ({v \<in> nodes_of (objs s a). (v, source) \<in> (edges (objs s a))\<^sup>+} - {source}))"

definition nx_descendants :: "'n store \<Rightarrow> pyval \<Rightarrow> 'n \<Rightarrow> error + 'n set" where
  "nx_descendants s G source =
     (case G of
        BoundMethod m \<Rightarrow> Inl AttributeError
      | GraphRef a \<Rightarrow>
          if source \<notin> nodes_of (objs s a) then Inl NetworkXError
          else Inr ({v \<in> nodes_of (objs s a). (source, v) \<in> (edges (objs s a))\<^sup>+} - {source}))"

text \<open>
  \<^verbatim>\<open>G.successors(n)\<close> and \<^verbatim>\<open>G.predecessors(n)\<close> exist on directed graphs only; they
  iterate over the adjacency of \<open>n\<close> and raise \<^verbatim>\<open>NetworkXError\<close> when \<open>n\<close> is not a node.
\<close>

definition successors :: "'n store \<Rightarrow> pyval \<Rightarrow> 'n \<Rightarrow> error + 'n list" where
  "successors s G n =
     (case G of
        BoundMethod m \<Rightarrow> Inl AttributeError
      | GraphRef a \<Rightarrow>
          if \<not> is_directed (objs s a) then Inl AttributeError
          else if n \<notin> nodes_of (objs s a) then Inl NetworkXError
          else Inr (map snd (filter (\<lambda>e. fst e = n) (adj_list (objs s a)))))"

definition predecessors :: "'n store \<Rightarrow> pyval \<Rightarrow> 'n \<Rightarrow> error + 'n list" where
  "predecessors s G n =
     (case G of
        BoundMethod m \<Rightarrow> Inl AttributeError
      | GraphRef a \<Rightarrow>
          if \<not> is_directed (objs s a) then Inl AttributeError
          else if n \<notin> nodes_of (objs s a) then Inl NetworkXError
          else Inr (map fst (filter (\<lambda>e. snd e = n) (adj_list (objs s a)))))"

text \<open>
  \<^verbatim>\<open>nx.connected_components(G)\<close> walks the nodes in order and, for every node not seen
  yet, yields the set of nodes connected to it. It is not implemented for directed
  graphs.
\<close>

definition component_of :: "'n nxgraph \<Rightarrow> 'n \<Rightarrow> 'n set" where
  "component_of G v = {w \<in> nodes_of G. w = v \<or> (v, w) \<in> (edges G)\<^sup>+}"

fun components_from :: "'n nxgraph \<Rightarrow> 'n set \<Rightarrow> 'n list \<Rightarrow> 'n set list" where
  "components_from G seen [] = []"
| "components_from G seen (v # vs) =
     (if v \<in> seen then components_from G seen vs
      else component_of G v # components_from G (seen \<union> component_of G v) vs)"

definition nx_connected_components :: "'n store \<Rightarrow> pyval \<Rightarrow> error + 'n set list" where
  "nx_connected_components s G =
     (case G of
        BoundMethod m \<Rightarrow> Inl AttributeError
      | GraphRef a \<Rightarrow>
          if is_directed (objs s a) then Inl NetworkXNotImplemented
          else Inr (components_from (objs s a) {} (node_list (objs s a))))"

subsection \<open>MixedEdgeGraph\<close>

text \<open>
  \<^verbatim>\<open>MixedEdgeGraph\<close> (imported from \<^verbatim>\<open>graphs\<close>) is the base class of \<^verbatim>\<open>ADMG\<close>: the
  registry from edge-type names to graph objects and the graph-level attributes.
\<close>

record mixed_edge_graph =
  edge_graphs :: "(string \<times> addr) list"
  graph_attr :: "(string \<times> string) list"

text \<open>
  Modelled from the spec: \<^verbatim>\<open>MixedEdgeGraph.__init__\<close> is not part of admg.py. "Created
  empty or from edge-type-keyed input"; \<^verbatim>\<open>ADMG.__init__\<close> passes the keyword attributes
  only, so the registry starts empty.
\<close>

definition MixedEdgeGraph_init :: "(string \<times> string) list \<Rightarrow> mixed_edge_graph" where
  "MixedEdgeGraph_init attr = \<lparr>edge_graphs = [], graph_attr = attr\<rparr>"

text \<open>
  Modelled from the spec: \<^verbatim>\<open>MixedEdgeGraph.add_edge_type\<close> is not part of admg.py.
  "Adds sub\_graph under name to the registry. Fails with DuplicateEdgeTypeError if name
  already registered"; a failed registration "leaves the original sub-graph unchanged".
\<close>

definition add_edge_type ::
  "mixed_edge_graph \<Rightarrow> addr \<Rightarrow> string \<Rightarrow> error + mixed_edge_graph" where
  "add_edge_type self G name =
     (if name \<in> fst ` set (edge_graphs self) then Inl DuplicateEdgeTypeError
      else Inr (self\<lparr>edge_graphs := edge_graphs self @ [(name, G)]\<rparr>))"

text \<open>
  Modelled from the spec: \<^verbatim>\<open>MixedEdgeGraph.get_graphs\<close> is not part of admg.py. "Get
  sub-graph (name): the registered single-edge-type graph, or fails with
  UnknownEdgeTypeError".
\<close>

definition get_graphs :: "'z mixed_edge_graph_scheme \<Rightarrow> string \<Rightarrow> error + addr" where
  "get_graphs self name =
     (case map_of (edge_graphs self) name of
        None \<Rightarrow> Inl UnknownEdgeTypeError
      | Some G \<Rightarrow> Inr G)"

text \<open>
  Modelled from the spec: \<^verbatim>\<open>MixedEdgeGraph._get_internal_graph\<close> is not part of admg.py.
  The specification has one lookup, "Get sub-graph (name)", returning "the live sub-graph
  object".
\<close>

definition get_internal_graph :: "'z mixed_edge_graph_scheme \<Rightarrow> string \<Rightarrow> error + addr" where
  "get_internal_graph self name =
     (case map_of (edge_graphs self) name of
        None \<Rightarrow> Inl UnknownEdgeTypeError
      | Some G \<Rightarrow> Inr G)"

text \<open>
  Modelled from the spec: the unified node view of \<^verbatim>\<open>MixedEdgeGraph\<close> is not part of
  admg.py. "The set of nodes that appear in at least one sub-graph (union semantics)".
\<close>

definition nodes :: "'n store \<Rightarrow> 'z mixed_edge_graph_scheme \<Rightarrow> 'n set" where
  "nodes s self = (\<Union>G \<in> snd ` set (edge_graphs self). nodes_of (objs s G))"

text \<open>
  An edge view (\<^verbatim>\<open>G.edges\<close>) is not a copy: it reads the graph object it belongs to.
\<close>

datatype edge_view = EdgeView addr

definition view_edges :: "'n store \<Rightarrow> edge_view \<Rightarrow> ('n \<times> 'n) set" where
  "view_edges s v = (case v of EdgeView G \<Rightarrow> edges (objs s G))"

subsection \<open>ADMG\<close>

text \<open>
  An \<^verbatim>\<open>ADMG\<close> object is a \<^verbatim>\<open>MixedEdgeGraph\<close> with the three role names that
  \<^verbatim>\<open>__init__\<close> stores in \<^verbatim>\<open>_directed_name\<close>, \<^verbatim>\<open>_bidirected_name\<close> and
  \<^verbatim>\<open>_undirected_name\<close>.
\<close>

record admg = mixed_edge_graph +
  directed_name :: string
  bidirected_name :: string
  undirected_name :: string

text \<open>Lines 137 to 144: the edge views, through \<^verbatim>\<open>get_graphs\<close>.\<close>

definition bidirected_edges :: "admg \<Rightarrow> error + edge_view" where
  "bidirected_edges self = map_sum id EdgeView (get_graphs self (bidirected_name self))"

definition undirected_edges :: "admg \<Rightarrow> error + edge_view" where
  "undirected_edges self = map_sum id EdgeView (get_graphs self (undirected_name self))"

definition directed_edges :: "admg \<Rightarrow> error + edge_view" where
  "directed_edges self = map_sum id EdgeView (get_graphs self (directed_name self))"

text \<open>Lines 146 to 153: the sub-graph accessors, through \<^verbatim>\<open>_get_internal_graph\<close>.\<close>

definition sub_directed_graph :: "admg \<Rightarrow> error + addr" where
  "sub_directed_graph self = get_internal_graph self (directed_name self)"

definition sub_bidirected_graph :: "admg \<Rightarrow> error + addr" where
  "sub_bidirected_graph self = get_internal_graph self (bidirected_name self)"

definition sub_undirected_graph :: "admg \<Rightarrow> error + addr" where
  "sub_undirected_graph self = get_internal_graph self (undirected_name self)"

text \<open>
  The three accessors are plain methods (\<^verbatim>\<open>def sub_directed_graph(self)\<close>, no
  \<^verbatim>\<open>@property\<close>). Line 123 calls one, \<^verbatim>\<open>self.sub_directed_graph()\<close>, and receives the
  graph. Lines 10, 14, 35, 56 and 134 name one without calling it,
  \<^verbatim>\<open>self.sub_directed_graph\<close> and \<^verbatim>\<open>self.sub_bidirected_graph\<close>: on an \<^verbatim>\<open>ADMG\<close> that
  expression is the bound method.
\<close>

definition attr_sub_directed_graph :: "admg \<Rightarrow> pyval" where
  "attr_sub_directed_graph self = BoundMethod ''sub_directed_graph''"

definition attr_sub_bidirected_graph :: "admg \<Rightarrow> pyval" where
  "attr_sub_bidirected_graph self = BoundMethod ''sub_bidirected_graph''"

text \<open>
  \<^verbatim>\<open>ADMG.__init__\<close>, lines 106 to 124. Each graph is created before its registration is
  attempted; an exception leaves no object behind.
\<close>

definition ADMG_init ::
  "'n store \<Rightarrow> 'n graph_data \<Rightarrow> 'n graph_data \<Rightarrow> 'n graph_data \<Rightarrow>
   string \<Rightarrow> string \<Rightarrow> string \<Rightarrow> (string \<times> string) list \<Rightarrow> error + (admg \<times> 'n store)" where
  "ADMG_init s incoming_directed_edges incoming_bidirected_edges incoming_undirected_edges
      directed_edge_name bidirected_edge_name undirected_edge_name attr =
     (let self0 = MixedEdgeGraph_init attr;
          (Gd, s1) = nx_DiGraph s incoming_directed_edges
      in case add_edge_type self0 Gd directed_edge_name of
           Inl e \<Rightarrow> Inl e
         | Inr self1 \<Rightarrow>
     (let (Gb, s2) = nx_Graph s1 incoming_bidirected_edges
      in case add_edge_type self1 Gb bidirected_edge_name of
           Inl e \<Rightarrow> Inl e
         | Inr self2 \<Rightarrow>
     (let (Gu, s3) = nx_Graph s2 incoming_undirected_edges
      in case add_edge_type self2 Gu undirected_edge_name of
           Inl e \<Rightarrow> Inl e
         | Inr self3 \<Rightarrow>
     (let self4 = \<lparr>edge_graphs = edge_graphs self3, graph_attr = graph_attr self3,
                   directed_name = directed_edge_name,
                   bidirected_name = bidirected_edge_name,
                   undirected_name = undirected_edge_name\<rparr>
      in case sub_directed_graph self4 of
           Inl e \<Rightarrow> Inl e
         | Inr G \<Rightarrow>
             (case nx_is_directed_acyclic_graph s3 (GraphRef G) of
                Inl e \<Rightarrow> Inl e
              | Inr dag \<Rightarrow> if \<not> dag then Inl RuntimeError else Inr (self4, s3))))))"

text \<open>The default call \<^verbatim>\<open>ADMG(d, b, u)\<close>.\<close>

definition ADMG_default ::
  "'n store \<Rightarrow> 'n graph_data \<Rightarrow> 'n graph_data \<Rightarrow> 'n graph_data \<Rightarrow> error + (admg \<times> 'n store)" where
  "ADMG_default s d b u = ADMG_init s d b u ''directed'' ''bidirected'' ''undirected'' []"

text \<open>
  Lines 126 to 134. The components come as a lazy sequence; the result below is what
  consuming it gives.
\<close>

definition c_components :: "'n store \<Rightarrow> admg \<Rightarrow> error + 'n set list" where
  "c_components s self = nx_connected_components s (attr_sub_bidirected_graph self)"

subsection \<open>AncestralMixin\<close>

text \<open>Lines 8 to 56, with \<open>self\<close> an \<^verbatim>\<open>ADMG\<close>.\<close>

definition ancestors :: "'n store \<Rightarrow> admg \<Rightarrow> 'n \<Rightarrow> error + 'n set" where
  "ancestors s self source = nx_ancestors s (attr_sub_directed_graph self) source"

definition descendants :: "'n store \<Rightarrow> admg \<Rightarrow> 'n \<Rightarrow> error + 'n set" where
  "descendants s self source = nx_descendants s (attr_sub_directed_graph self) source"

definition children :: "'n store \<Rightarrow> admg \<Rightarrow> 'n \<Rightarrow> error + 'n list" where
  "children s self n = successors s (attr_sub_directed_graph self) n"

definition parents :: "'n store \<Rightarrow> admg \<Rightarrow> 'n \<Rightarrow> error + 'n list" where
  "parents s self n = predecessors s (attr_sub_directed_graph self) n"

section \<open>Properties\<close>

subsection \<open>Graph operations\<close>


lemma is_directed_add_node [simp]: "is_directed (add_node G n) = is_directed G"
  by (simp add: add_node_def)

lemma is_directed_add_adj [simp]: "is_directed (add_adj G u v) = is_directed G"
  by (simp add: add_adj_def)

lemma is_directed_add_edge [simp]: "is_directed (add_edge G u v) = is_directed G"
  by (simp add: add_edge_def Let_def)

lemma is_directed_add_nodes_from [simp]: "is_directed (add_nodes_from G ns) = is_directed G"
  unfolding add_nodes_from_def by (induction ns arbitrary: G) simp_all

lemma is_directed_add_edges_from [simp]: "is_directed (add_edges_from G es) = is_directed G"
  unfolding add_edges_from_def by (induction es arbitrary: G) (simp_all add: case_prod_beta)

lemma is_directed_to_networkx_graph [simp]:
  "is_directed (to_networkx_graph s data G) = is_directed G"
  by (simp add: to_networkx_graph_def)

lemma edges_add_node [simp]: "edges (add_node G n) = edges G"
  by (simp add: add_node_def edges_def)

lemma nodes_of_add_node [simp]: "nodes_of (add_node G n) = insert n (nodes_of G)"
  by (auto simp: add_node_def nodes_of_def)

lemma edges_add_adj [simp]: "edges (add_adj G u v) = insert (u, v) (edges G)"
  by (auto simp: add_adj_def edges_def)

lemma nodes_of_add_adj [simp]: "nodes_of (add_adj G u v) = nodes_of G"
  by (simp add: add_adj_def nodes_of_def)

lemma edges_add_edge:
  "edges (add_edge G u v) =
     (if is_directed G then insert (u, v) (edges G) else insert (v, u) (insert (u, v) (edges G)))"
  by (simp add: add_edge_def Let_def)

lemma nodes_of_add_edge [simp]: "nodes_of (add_edge G u v) = insert u (insert v (nodes_of G))"
  by (auto simp: add_edge_def Let_def)

lemma edges_add_nodes_from [simp]: "edges (add_nodes_from G ns) = edges G"
  unfolding add_nodes_from_def by (induction ns arbitrary: G) simp_all

lemma nodes_of_add_nodes_from [simp]: "nodes_of (add_nodes_from G ns) = nodes_of G \<union> set ns"
  unfolding add_nodes_from_def by (induction ns arbitrary: G) auto

lemma edges_add_edges_from:
  "edges (add_edges_from G es) =
     edges G \<union> set es \<union> (if is_directed G then {} else (set es)\<inverse>)"
  unfolding add_edges_from_def
  by (induction es arbitrary: G) (auto simp: edges_add_edge split: if_splits)

lemma nodes_of_add_edges_from:
  "nodes_of (add_edges_from G es) = nodes_of G \<union> fst ` set es \<union> snd ` set es"
  unfolding add_edges_from_def
  by (induction es arbitrary: G) (auto simp: image_iff)

lemma edges_empty_graph [simp]: "edges (empty_graph dir) = {}"
  by (simp add: empty_graph_def edges_def)

lemma nodes_of_empty_graph [simp]: "nodes_of (empty_graph dir) = {}"
  by (simp add: empty_graph_def nodes_of_def)

lemma is_directed_empty_graph [simp]: "is_directed (empty_graph dir) = dir"
  by (simp add: empty_graph_def)

lemma edges_to_networkx_graph:
  "edges (to_networkx_graph s data G) =
     edges G \<union> set (data_pairs s data) \<union>
       (if is_directed G then {} else (set (data_pairs s data))\<inverse>)"
  by (simp add: to_networkx_graph_def edges_add_edges_from)

lemma ADMG_init_eq:
  "ADMG_init s d b u dn bn un attr =
     (let (Gd, s1) = nx_DiGraph s d; (Gb, s2) = nx_Graph s1 b; (Gu, s3) = nx_Graph s2 u
      in if bn = dn \<or> un = dn \<or> un = bn then Inl DuplicateEdgeTypeError
         else if \<not> acyclic (edges (objs s3 Gd)) then Inl RuntimeError
         else Inr (\<lparr>edge_graphs = [(dn, Gd), (bn, Gb), (un, Gu)], graph_attr = attr,
                     directed_name = dn, bidirected_name = bn, undirected_name = un\<rparr>, s3))"
  by (auto simp: ADMG_init_def Let_def MixedEdgeGraph_init_def add_edge_type_def
      sub_directed_graph_def get_internal_graph_def nx_is_directed_acyclic_graph_def
      nx_DiGraph_def nx_Graph_def new_object_def split: prod.splits)

lemma to_networkx_graph_live:
  assumes "data_live s data" and "\<And>a. a < next_free s \<Longrightarrow> objs s1 a = objs s a"
  shows "to_networkx_graph s1 data G = to_networkx_graph s data G"
  using assms by (cases data) (simp_all add: to_networkx_graph_def)

lemma mixin_fault:
  "ancestors s self x = Inl AttributeError"
  "descendants s self x = Inl AttributeError"
  "children s self x = Inl AttributeError"
  "parents s self x = Inl AttributeError"
  "c_components s self = Inl AttributeError"
  by (simp_all add: ancestors_def descendants_def children_def parents_def c_components_def
      attr_sub_directed_graph_def attr_sub_bidirected_graph_def nx_ancestors_def
      nx_descendants_def successors_def predecessors_def nx_connected_components_def)


lemma fst_nx_DiGraph [simp]: "fst (nx_DiGraph s d) = next_free s"
  by (simp add: nx_DiGraph_def new_object_def)

lemma fst_nx_Graph [simp]: "fst (nx_Graph s d) = next_free s"
  by (simp add: nx_Graph_def new_object_def)

lemma next_free_nx_DiGraph [simp]: "next_free (snd (nx_DiGraph s d)) = Suc (next_free s)"
  by (simp add: nx_DiGraph_def new_object_def)

lemma next_free_nx_Graph [simp]: "next_free (snd (nx_Graph s d)) = Suc (next_free s)"
  by (simp add: nx_Graph_def new_object_def)

lemma objs_nx_DiGraph:
  "objs (snd (nx_DiGraph s d)) a =
     (if a = next_free s then to_networkx_graph s d (empty_graph True) else objs s a)"
  by (simp add: nx_DiGraph_def new_object_def)

lemma objs_nx_Graph:
  "objs (snd (nx_Graph s d)) a =
     (if a = next_free s then to_networkx_graph s d (empty_graph False) else objs s a)"
  by (simp add: nx_Graph_def new_object_def)


lemma ADMG_init_eq2:
  "ADMG_init s d b u dn bn un attr =
     (if bn = dn \<or> un = dn \<or> un = bn then Inl DuplicateEdgeTypeError
      else if \<not> acyclic (edges (to_networkx_graph s d (empty_graph True))) then Inl RuntimeError
      else Inr (\<lparr>edge_graphs = [(dn, next_free s), (bn, Suc (next_free s)),
                                  (un, Suc (Suc (next_free s)))],
                  graph_attr = attr, directed_name = dn, bidirected_name = bn,
                  undirected_name = un\<rparr>,
                snd (nx_Graph (snd (nx_Graph (snd (nx_DiGraph s d)) b)) u)))"
  by (simp add: ADMG_init_eq Let_def case_prod_beta objs_nx_Graph objs_nx_DiGraph)


lemma ADMG_init_InrD:
  assumes "ADMG_init s d b u dn bn un attr = Inr (self, s')"
  shows "distinct [dn, bn, un]"
    and "self = \<lparr>edge_graphs = [(dn, next_free s), (bn, Suc (next_free s)),
                                 (un, Suc (Suc (next_free s)))],
                  graph_attr = attr, directed_name = dn, bidirected_name = bn,
                  undirected_name = un\<rparr>"
    and "s' = snd (nx_Graph (snd (nx_Graph (snd (nx_DiGraph s d)) b)) u)"
    and "acyclic (edges (to_networkx_graph s d (empty_graph True)))"
proof -
  have names: "\<not> (bn = dn \<or> un = dn \<or> un = bn)"
  proof
    assume "bn = dn \<or> un = dn \<or> un = bn"
    then have "ADMG_init s d b u dn bn un attr = Inl DuplicateEdgeTypeError"
      by (simp add: ADMG_init_eq2)
    with assms show False by simp
  qed
  then show "distinct [dn, bn, un]" by auto
  show acyc: "acyclic (edges (to_networkx_graph s d (empty_graph True)))"
  proof (rule ccontr)
    assume "\<not> acyclic (edges (to_networkx_graph s d (empty_graph True)))"
    with names have "ADMG_init s d b u dn bn un attr = Inl RuntimeError"
      by (simp add: ADMG_init_eq2)
    with assms show False by simp
  qed
  from names acyc have
    "ADMG_init s d b u dn bn un attr =
       Inr (\<lparr>edge_graphs = [(dn, next_free s), (bn, Suc (next_free s)),
                               (un, Suc (Suc (next_free s)))],
               graph_attr = attr, directed_name = dn, bidirected_name = bn,
               undirected_name = un\<rparr>,
             snd (nx_Graph (snd (nx_Graph (snd (nx_DiGraph s d)) b)) u))"
    by (simp add: ADMG_init_eq2)
  with assms have
    "(self, s') =
       (\<lparr>edge_graphs = [(dn, next_free s), (bn, Suc (next_free s)),
                          (un, Suc (Suc (next_free s)))],
          graph_attr = attr, directed_name = dn, bidirected_name = bn,
          undirected_name = un\<rparr>,
        snd (nx_Graph (snd (nx_Graph (snd (nx_DiGraph s d)) b)) u))"
    by (simp only: sum.inject)
  then show
    "self = \<lparr>edge_graphs = [(dn, next_free s), (bn, Suc (next_free s)),
                             (un, Suc (Suc (next_free s)))],
              graph_attr = attr, directed_name = dn, bidirected_name = bn,
              undirected_name = un\<rparr>"
    and "s' = snd (nx_Graph (snd (nx_Graph (snd (nx_DiGraph s d)) b)) u)"
    by (simp_all only: prod.inject)
qed

lemma built_store:
  fixes s :: "'n store"
  defines "n \<equiv> next_free s"
  assumes "s' = snd (nx_Graph (snd (nx_Graph (snd (nx_DiGraph s d)) b)) u)"
  shows "next_free s' = Suc (Suc (Suc n))"
    and "objs s' n = to_networkx_graph s d (empty_graph True)"
    and "objs s' (Suc n) = to_networkx_graph (snd (nx_DiGraph s d)) b (empty_graph False)"
    and "objs s' (Suc (Suc n)) =
           to_networkx_graph (snd (nx_Graph (snd (nx_DiGraph s d)) b)) u (empty_graph False)"
    and "\<And>a. a < n \<Longrightarrow> objs s' a = objs s a"
  by (simp_all add: assms objs_nx_Graph objs_nx_DiGraph)

lemma built_store_live:
  fixes s :: "'n store"
  assumes "s' = snd (nx_Graph (snd (nx_Graph (snd (nx_DiGraph s d)) b)) u)"
  shows "data_live s b \<Longrightarrow>
           objs s' (Suc (next_free s)) = to_networkx_graph s b (empty_graph False)"
    and "data_live s u \<Longrightarrow>
           objs s' (Suc (Suc (next_free s))) = to_networkx_graph s u (empty_graph False)"
proof -
  assume "data_live s b"
  then have "to_networkx_graph (snd (nx_DiGraph s d)) b (empty_graph False) =
             to_networkx_graph s b (empty_graph False)"
    by (rule to_networkx_graph_live) (simp add: objs_nx_DiGraph)
  then show "objs s' (Suc (next_free s)) = to_networkx_graph s b (empty_graph False)"
    using built_store(3) [OF assms] by simp
next
  assume "data_live s u"
  then have "to_networkx_graph (snd (nx_Graph (snd (nx_DiGraph s d)) b)) u (empty_graph False) =
             to_networkx_graph s u (empty_graph False)"
    by (rule to_networkx_graph_live) (simp add: objs_nx_DiGraph objs_nx_Graph)
  then show "objs s' (Suc (Suc (next_free s))) = to_networkx_graph s u (empty_graph False)"
    using built_store(4) [OF assms] by simp
qed


lemma edges_DiGraph:
  "edges (to_networkx_graph s d (empty_graph True)) = set (data_pairs s d)"
  by (simp add: edges_to_networkx_graph)

lemma edges_Graph:
  "edges (to_networkx_graph s d (empty_graph False)) =
     set (data_pairs s d) \<union> (set (data_pairs s d))\<inverse>"
  by (simp add: edges_to_networkx_graph)

lemma accessors_built:
  assumes "distinct [dn, bn, un]"
    and "self = \<lparr>edge_graphs = [(dn, Gd), (bn, Gb), (un, Gu)],
                  graph_attr = attr, directed_name = dn, bidirected_name = bn,
                  undirected_name = un\<rparr>"
  shows "sub_directed_graph self = Inr Gd"
    and "sub_bidirected_graph self = Inr Gb"
    and "sub_undirected_graph self = Inr Gu"
    and "directed_edges self = Inr (EdgeView Gd)"
    and "bidirected_edges self = Inr (EdgeView Gb)"
    and "undirected_edges self = Inr (EdgeView Gu)"
    and "get_graphs self dn = Inr Gd"
    and "get_graphs self bn = Inr Gb"
    and "get_graphs self un = Inr Gu"
  using assms(1) unfolding assms(2)
  by (auto simp: sub_directed_graph_def sub_bidirected_graph_def sub_undirected_graph_def
      directed_edges_def bidirected_edges_def undirected_edges_def get_internal_graph_def
      get_graphs_def)

subsection \<open>Construction and the acyclicity check\<close>

text \<open>
  The acyclicity check is reached only after the three registrations. With the directed
  edge \<open>1 \<rightarrow> 2\<close> (acyclic) and the same name given to the directed and the bidirected
  role, the second registration is refused and construction fails, although the directed
  edges are acyclic.
\<close>

theorem C1_counterexample:
  "acyclic (set (data_pairs store0 (EdgeList [(1::nat, 2)]))) \<and>
   ADMG_init store0 (EdgeList [(1::nat, 2)]) NoData NoData
     ''causal'' ''causal'' ''undirected'' [] = Inl DuplicateEdgeTypeError"
proof
  have "acyclic (set [(1::nat, 2)])" by code_simp
  then show "acyclic (set (data_pairs store0 (EdgeList [(1::nat, 2)])))"
    by simp
  show "ADMG_init store0 (EdgeList [(1::nat, 2)]) NoData NoData
     ''causal'' ''causal'' ''undirected'' [] = Inl DuplicateEdgeTypeError"
    by (simp add: ADMG_init_eq2)
qed

text \<open>
  Claim C1, with the role names taken into account. When two of the three role names
  coincide, construction fails with \<open>DuplicateEdgeTypeError\<close>, whatever the edges are.
  When the names are pairwise distinct (as the default names are), construction raises
  \<open>RuntimeError\<close> if and only if the directed edges given contain a directed cycle; the
  condition does not mention the bidirected and undirected inputs, so whenever the
  directed edges are acyclic, construction succeeds. Every constructed ADMG holds three
  sub-graphs built from the three inputs: the directed one is a new directed graph
  filled from the directed input, its edges are exactly the directed edges given, and
  it is acyclic; the bidirected and the undirected one are new undirected graphs filled
  from the bidirected and the undirected input, each created in the store as its
  predecessor's creation left it (so filled from the input as the caller gave it,
  whenever that input is an edge list, a dict, nothing, or a graph object of the caller).
\<close>

theorem C1_construction_acyclic:
  "(\<not> distinct [dn, bn, un] \<longrightarrow>
      ADMG_init s d b u dn bn un attr = Inl DuplicateEdgeTypeError) \<and>
   (distinct [dn, bn, un] \<longrightarrow>
      (ADMG_init s d b u dn bn un attr = Inl RuntimeError \<longleftrightarrow>
         \<not> acyclic (set (data_pairs s d))) \<and>
      (acyclic (set (data_pairs s d)) \<longrightarrow>
         (\<exists>self s'. ADMG_init s d b u dn bn un attr = Inr (self, s')))) \<and>
   (\<forall>self s'. ADMG_init s d b u dn bn un attr = Inr (self, s') \<longrightarrow>
      (\<exists>Gd Gb Gu.
         sub_directed_graph self = Inr Gd \<and> sub_bidirected_graph self = Inr Gb \<and>
         sub_undirected_graph self = Inr Gu \<and>
         objs s' Gd = to_networkx_graph s d (empty_graph True) \<and>
         objs s' Gb = to_networkx_graph (snd (nx_DiGraph s d)) b (empty_graph False) \<and>
         objs s' Gu =
           to_networkx_graph (snd (nx_Graph (snd (nx_DiGraph s d)) b)) u (empty_graph False) \<and>
         (data_live s b \<longrightarrow> objs s' Gb = to_networkx_graph s b (empty_graph False)) \<and>
         (data_live s u \<longrightarrow> objs s' Gu = to_networkx_graph s u (empty_graph False)) \<and>
         is_directed (objs s' Gd) \<and> edges (objs s' Gd) = set (data_pairs s d) \<and>
         acyclic (edges (objs s' Gd))))"
proof (intro conjI allI impI)
  assume "\<not> distinct [dn, bn, un]"
  then have "bn = dn \<or> un = dn \<or> un = bn" by auto
  then show "ADMG_init s d b u dn bn un attr = Inl DuplicateEdgeTypeError"
    by (simp add: ADMG_init_eq2)
next
  assume "distinct [dn, bn, un]"
  then have names: "\<not> (bn = dn \<or> un = dn \<or> un = bn)" by auto
  then show "ADMG_init s d b u dn bn un attr = Inl RuntimeError \<longleftrightarrow>
          \<not> acyclic (set (data_pairs s d))"
    by (simp add: ADMG_init_eq2 edges_DiGraph)
next
  assume "distinct [dn, bn, un]" and ac: "acyclic (set (data_pairs s d))"
  then have names: "\<not> (bn = dn \<or> un = dn \<or> un = bn)" by auto
  with ac show "\<exists>self s'. ADMG_init s d b u dn bn un attr = Inr (self, s')"
    by (simp add: ADMG_init_eq2 edges_DiGraph)
next
  fix self s'
  assume init: "ADMG_init s d b u dn bn un attr = Inr (self, s')"
  note D = ADMG_init_InrD [OF init]
  note A = accessors_built [OF D(1) D(2)]
  note B = built_store [OF D(3)]
  note L = built_store_live [OF D(3)]
  have lb: "data_live s b \<longrightarrow>
              objs s' (Suc (next_free s)) = to_networkx_graph s b (empty_graph False)"
    using L(1) by (rule impI)
  have lu: "data_live s u \<longrightarrow>
              objs s' (Suc (Suc (next_free s))) = to_networkx_graph s u (empty_graph False)"
    using L(2) by (rule impI)
  have k: "is_directed (objs s' (next_free s))" by (simp add: B(2))
  have e: "edges (objs s' (next_free s)) = set (data_pairs s d)"
    by (simp add: B(2) edges_DiGraph)
  have a: "acyclic (edges (objs s' (next_free s)))"
    using D(4) by (simp add: B(2))
  show "\<exists>Gd Gb Gu.
         sub_directed_graph self = Inr Gd \<and> sub_bidirected_graph self = Inr Gb \<and>
         sub_undirected_graph self = Inr Gu \<and>
         objs s' Gd = to_networkx_graph s d (empty_graph True) \<and>
         objs s' Gb = to_networkx_graph (snd (nx_DiGraph s d)) b (empty_graph False) \<and>
         objs s' Gu =
           to_networkx_graph (snd (nx_Graph (snd (nx_DiGraph s d)) b)) u (empty_graph False) \<and>
         (data_live s b \<longrightarrow> objs s' Gb = to_networkx_graph s b (empty_graph False)) \<and>
         (data_live s u \<longrightarrow> objs s' Gu = to_networkx_graph s u (empty_graph False)) \<and>
         is_directed (objs s' Gd) \<and> edges (objs s' Gd) = set (data_pairs s d) \<and>
         acyclic (edges (objs s' Gd))"
    by (intro exI conjI) (rule A(1-3) B(2) B(3) B(4) lb lu k e a)+
qed

text \<open>
  Scenario 2 of the specification: \<open>1 \<rightarrow> 2 \<rightarrow> 3\<close> with the bidirected edge \<open>1 \<leftrightarrow> 3\<close> is
  accepted, and its bidirected sub-graph has the edge \<open>1 \<leftrightarrow> 3\<close>; \<open>1 \<rightarrow> 2 \<rightarrow> 1\<close> is
  rejected with \<open>RuntimeError\<close>; with one name for two roles, \<open>1 \<rightarrow> 2 \<rightarrow> 1\<close> is rejected
  with \<open>DuplicateEdgeTypeError\<close>.
\<close>

theorem C1_construction_acyclic_witness:
  "ADMG_init store0 (EdgeList [(1::nat, 2), (2, 3)]) (EdgeList [(1, 3)]) NoData
       ''directed'' ''bidirected'' ''undirected'' [] \<noteq> Inl RuntimeError \<and>
   (\<exists>self s' Gd Gb Gu.
      ADMG_init store0 (EdgeList [(1::nat, 2), (2, 3)]) (EdgeList [(1, 3)]) NoData
       ''directed'' ''bidirected'' ''undirected'' [] = Inr (self, s') \<and>
      sub_directed_graph self = Inr Gd \<and> sub_bidirected_graph self = Inr Gb \<and>
      sub_undirected_graph self = Inr Gu \<and>
      edges (objs s' Gd) = {(1, 2), (2, 3)} \<and> edges (objs s' Gb) = {(1, 3), (3, 1)} \<and>
      edges (objs s' Gu) = {}) \<and>
   ADMG_init store0 (EdgeList [(1::nat, 2), (2, 1)]) (EdgeList [(1, 3)]) NoData
       ''directed'' ''bidirected'' ''undirected'' [] = Inl RuntimeError \<and>
   ADMG_init store0 (EdgeList [(1::nat, 2), (2, 1)]) (EdgeList [(1, 3)]) NoData
       ''causal'' ''causal'' ''undirected'' [] = Inl DuplicateEdgeTypeError"
proof -
  let ?d = "EdgeList [(1::nat, 2), (2, 3)]" and ?c = "EdgeList [(1::nat, 2), (2, 1)]"
  let ?b = "EdgeList [(1::nat, 3)]"
  have names: "distinct [''directed'', ''bidirected'', ''undirected'']" by simp
  have dup: "\<not> distinct [''causal'', ''causal'', ''undirected'']" by simp
  have "acyclic (set [(1::nat, 2), (2, 3)])" by code_simp
  then have ok: "acyclic (set (data_pairs store0 ?d))" by simp
  have "\<not> acyclic (set [(1::nat, 2), (2, 1)])" by code_simp
  then have bad: "\<not> acyclic (set (data_pairs store0 ?c))" by simp
  note T = C1_construction_acyclic [where s = store0 and d = ?d and b = ?b and u = NoData
      and dn = "''directed''" and bn = "''bidirected''" and un = "''undirected''"
      and attr = "[]"]
  note U = C1_construction_acyclic [where s = store0 and d = ?c and b = ?b and u = NoData
      and dn = "''directed''" and bn = "''bidirected''" and un = "''undirected''"
      and attr = "[]"]
  note V = C1_construction_acyclic [where s = store0 and d = ?c and b = ?b and u = NoData
      and dn = "''causal''" and bn = "''causal''" and un = "''undirected''"
      and attr = "[]"]
  note T2 = T [THEN conjunct2, THEN conjunct1, THEN mp, OF names]
  have 1: "ADMG_init store0 ?d ?b NoData ''directed'' ''bidirected'' ''undirected'' [] \<noteq>
             Inl RuntimeError"
    using T2 [THEN conjunct1] ok by simp
  from T2 [THEN conjunct2, THEN mp, OF ok] obtain self s' where init:
    "ADMG_init store0 ?d ?b NoData ''directed'' ''bidirected'' ''undirected'' [] = Inr (self, s')"
    by (elim exE)
  have 2: "\<exists>self s' Gd Gb Gu.
      ADMG_init store0 ?d ?b NoData ''directed'' ''bidirected'' ''undirected'' [] =
        Inr (self, s') \<and>
      sub_directed_graph self = Inr Gd \<and> sub_bidirected_graph self = Inr Gb \<and>
      sub_undirected_graph self = Inr Gu \<and>
      edges (objs s' Gd) = {(1, 2), (2, 3)} \<and> edges (objs s' Gb) = {(1, 3), (3, 1)} \<and>
      edges (objs s' Gu) = {}"
    using T [THEN conjunct2, THEN conjunct2, THEN spec, THEN spec, THEN mp, OF init]
  proof (elim exE conjE)
    fix Gd Gb Gu
    assume g: "sub_directed_graph self = Inr Gd" "sub_bidirected_graph self = Inr Gb"
      "sub_undirected_graph self = Inr Gu"
      and ed: "edges (objs s' Gd) = set (data_pairs store0 ?d)"
      and lb: "data_live store0 ?b \<longrightarrow> objs s' Gb = to_networkx_graph store0 ?b (empty_graph False)"
      and lu: "data_live store0 (NoData :: nat graph_data) \<longrightarrow>
                 objs s' Gu = to_networkx_graph store0 NoData (empty_graph False)"
    from ed have e1: "edges (objs s' Gd) = {(1, 2), (2, 3)}" by simp
    from lb have "objs s' Gb = to_networkx_graph store0 ?b (empty_graph False)" by simp
    then have e2: "edges (objs s' Gb) = {(1, 3), (3, 1)}"
      by (auto simp: edges_Graph)
    from lu have "objs s' Gu = to_networkx_graph store0 NoData (empty_graph False)" by simp
    then have e3: "edges (objs s' Gu) = {}"
      by (simp add: edges_Graph)
    show ?thesis
      by (intro exI conjI) (rule init g e1 e2 e3)+
  qed
  have 3: "ADMG_init store0 ?c ?b NoData ''directed'' ''bidirected'' ''undirected'' [] =
             Inl RuntimeError"
    using U [THEN conjunct2, THEN conjunct1, THEN mp, OF names, THEN conjunct1] bad by simp
  have 4: "ADMG_init store0 ?c ?b NoData ''causal'' ''causal'' ''undirected'' [] =
             Inl DuplicateEdgeTypeError"
    by (rule V [THEN conjunct1, THEN mp, OF dup])
  show ?thesis using 1 2 3 4 by (intro conjI)
qed


lemma objs_mutate: "objs (mutate s a G) r = (if r = a then G else objs s r)"
  by (simp add: mutate_def)

subsection \<open>The undirected sub-graphs\<close>

text \<open>
  \<^verbatim>\<open>ADMG(incoming_bidirected_edges=[(1, 1)])\<close> is accepted, and its bidirected sub-graph
  has the self-loop \<open>(1, 1)\<close>.
\<close>

theorem C6_counterexample:
  "(case ADMG_init store0 NoData (EdgeList [(1::nat, 1)]) NoData
           ''directed'' ''bidirected'' ''undirected'' [] of
      Inl e \<Rightarrow> False
    | Inr (self, s') \<Rightarrow>
        (case sub_bidirected_graph self of
           Inl e \<Rightarrow> False
         | Inr G \<Rightarrow> (1, 1) \<in> edges (objs s' G)))"
  by code_simp

text \<open>
  Claim C6, as the code has it: in every constructed ADMG the edges of the bidirected
  and of the undirected sub-graph are the pairs given together with their reversals. So
  both relations are symmetric, and a self-loop \<open>(x, x)\<close> is an edge exactly when the
  input contains the pair \<open>(x, x)\<close>: the sub-graphs are free of self-loops for inputs
  free of them.
\<close>

theorem C6_symmetric_edges:
  assumes init: "ADMG_init s d b u dn bn un attr = Inr (self, s')"
    and live: "data_live s b" "data_live s u"
  shows "\<exists>Gb Gu. sub_bidirected_graph self = Inr Gb \<and> sub_undirected_graph self = Inr Gu \<and>
           edges (objs s' Gb) = set (data_pairs s b) \<union> (set (data_pairs s b))\<inverse> \<and>
           edges (objs s' Gu) = set (data_pairs s u) \<union> (set (data_pairs s u))\<inverse> \<and>
           sym (edges (objs s' Gb)) \<and> sym (edges (objs s' Gu)) \<and>
           (\<forall>x. (x, x) \<in> edges (objs s' Gb) \<longleftrightarrow> (x, x) \<in> set (data_pairs s b)) \<and>
           (\<forall>x. (x, x) \<in> edges (objs s' Gu) \<longleftrightarrow> (x, x) \<in> set (data_pairs s u))"
proof -
  note D = ADMG_init_InrD [OF init]
  note A = accessors_built [OF D(1) D(2)]
  have b: "edges (objs s' (Suc (next_free s))) =
             set (data_pairs s b) \<union> (set (data_pairs s b))\<inverse>"
    using built_store_live(1) [OF D(3) live(1)] by (simp add: edges_Graph)
  have u: "edges (objs s' (Suc (Suc (next_free s)))) =
             set (data_pairs s u) \<union> (set (data_pairs s u))\<inverse>"
    using built_store_live(2) [OF D(3) live(2)] by (simp add: edges_Graph)
  have "sym (edges (objs s' (Suc (next_free s))))"
    unfolding b by (auto simp: sym_def)
  moreover have "sym (edges (objs s' (Suc (Suc (next_free s)))))"
    unfolding u by (auto simp: sym_def)
  moreover have "\<forall>x. (x, x) \<in> edges (objs s' (Suc (next_free s))) \<longleftrightarrow>
                     (x, x) \<in> set (data_pairs s b)"
    unfolding b by auto
  moreover have "\<forall>x. (x, x) \<in> edges (objs s' (Suc (Suc (next_free s)))) \<longleftrightarrow>
                     (x, x) \<in> set (data_pairs s u)"
    unfolding u by auto
  ultimately show ?thesis using A(2) A(3) b u by blast
qed

text \<open>
  Bidirected input \<open>[(1, 3), (4, 4)]\<close> and undirected input \<open>[(2, 3)]\<close>.
\<close>

theorem C6_symmetric_edges_witness:
  "\<exists>self s' Gb Gu.
     ADMG_init store0 (EdgeList [(1::nat, 2)]) (EdgeList [(1, 3), (4, 4)]) (EdgeList [(2, 3)])
       ''directed'' ''bidirected'' ''undirected'' [] = Inr (self, s') \<and>
     sub_bidirected_graph self = Inr Gb \<and> sub_undirected_graph self = Inr Gu \<and>
     edges (objs s' Gb) = {(1, 3), (3, 1), (4, 4)} \<and>
     edges (objs s' Gu) = {(2, 3), (3, 2)} \<and>
     sym (edges (objs s' Gb)) \<and> sym (edges (objs s' Gu))"
proof -
  have "acyclic (set [(1::nat, 2)])" by code_simp
  then have "\<exists>self s'. ADMG_init store0 (EdgeList [(1::nat, 2)]) (EdgeList [(1, 3), (4, 4)])
       (EdgeList [(2, 3)]) ''directed'' ''bidirected'' ''undirected'' [] = Inr (self, s')"
    by (simp add: ADMG_init_eq2 edges_DiGraph)
  then obtain self s' where init:
    "ADMG_init store0 (EdgeList [(1::nat, 2)]) (EdgeList [(1, 3), (4, 4)])
       (EdgeList [(2, 3)]) ''directed'' ''bidirected'' ''undirected'' [] = Inr (self, s')"
    by blast
  have l1: "data_live store0 (EdgeList [(1::nat, 3), (4, 4)])" by simp
  have l2: "data_live store0 (EdgeList [(2::nat, 3)])" by simp
  from C6_symmetric_edges [OF init l1 l2] obtain Gb Gu where
    "sub_bidirected_graph self = Inr Gb" "sub_undirected_graph self = Inr Gu"
    "edges (objs s' Gb) = set (data_pairs store0 (EdgeList [(1::nat, 3), (4, 4)])) \<union>
        (set (data_pairs store0 (EdgeList [(1::nat, 3), (4, 4)])))\<inverse>"
    "edges (objs s' Gu) = set (data_pairs store0 (EdgeList [(2::nat, 3)])) \<union>
        (set (data_pairs store0 (EdgeList [(2::nat, 3)])))\<inverse>"
    "sym (edges (objs s' Gb))" "sym (edges (objs s' Gu))"
    by blast
  moreover have "set (data_pairs store0 (EdgeList [(1::nat, 3), (4, 4)])) \<union>
        (set (data_pairs store0 (EdgeList [(1::nat, 3), (4, 4)])))\<inverse> = {(1, 3), (3, 1), (4, 4)}"
    by auto
  moreover have "set (data_pairs store0 (EdgeList [(2::nat, 3)])) \<union>
        (set (data_pairs store0 (EdgeList [(2::nat, 3)])))\<inverse> = {(2, 3), (3, 2)}"
    by auto
  ultimately show ?thesis using init by auto
qed


subsection \<open>Sub-graphs are fresh objects\<close>

lemma nodes_of_to_networkx_graph:
  "nodes_of (to_networkx_graph s data G) =
     nodes_of G \<union> set (data_nodes s data) \<union>
       fst ` set (data_pairs s data) \<union> snd ` set (data_pairs s data)"
  by (simp add: to_networkx_graph_def nodes_of_add_edges_from)

lemma data_of_GraphObject:
  "set (data_nodes s (GraphObject a)) = nodes_of (objs s a)"
  "set (data_pairs s (GraphObject a)) = edges (objs s a)"
  by (simp_all add: nodes_of_def edges_def)

lemma nodes_built:
  "nodes s \<lparr>edge_graphs = [(dn, Gd), (bn, Gb), (un, Gu)], graph_attr = attr,
             directed_name = dn, bidirected_name = bn, undirected_name = un\<rparr> =
     nodes_of (objs s Gd) \<union> nodes_of (objs s Gb) \<union> nodes_of (objs s Gu)"
  by (auto simp: nodes_def)

text \<open>
  Claim C8: let \<open>a\<close> be a graph object of the caller that is live when the ADMG is
  constructed. None of the three registered sub-graphs is \<open>a\<close>. Where \<open>a\<close> was given as
  an edge input, the sub-graph registered for that role is a new graph filled from the
  nodes and adjacency of \<open>a\<close>. Whatever the caller does to \<open>a\<close> afterwards, the three
  sub-graphs, the three edge views and the unified node view of the ADMG stay as they
  were.
\<close>

theorem C8_subgraphs_not_aliased:
  assumes init: "ADMG_init s d b u dn bn un attr = Inr (self, s')"
    and live: "a < next_free s"
  shows "\<exists>Gd Gb Gu.
           sub_directed_graph self = Inr Gd \<and> sub_bidirected_graph self = Inr Gb \<and>
           sub_undirected_graph self = Inr Gu \<and>
           directed_edges self = Inr (EdgeView Gd) \<and> bidirected_edges self = Inr (EdgeView Gb) \<and>
           undirected_edges self = Inr (EdgeView Gu) \<and>
           snd ` set (edge_graphs self) = {Gd, Gb, Gu} \<and>
           a \<noteq> Gd \<and> a \<noteq> Gb \<and> a \<noteq> Gu \<and>
           (d = GraphObject a \<longrightarrow>
              objs s' Gd = to_networkx_graph s (GraphObject a) (empty_graph True)) \<and>
           (b = GraphObject a \<longrightarrow>
              objs s' Gb = to_networkx_graph s (GraphObject a) (empty_graph False)) \<and>
           (u = GraphObject a \<longrightarrow>
              objs s' Gu = to_networkx_graph s (GraphObject a) (empty_graph False)) \<and>
           (\<forall>G'. objs (mutate s' a G') Gd = objs s' Gd \<and>
                 objs (mutate s' a G') Gb = objs s' Gb \<and>
                 objs (mutate s' a G') Gu = objs s' Gu \<and>
                 view_edges (mutate s' a G') (EdgeView Gd) = view_edges s' (EdgeView Gd) \<and>
                 view_edges (mutate s' a G') (EdgeView Gb) = view_edges s' (EdgeView Gb) \<and>
                 view_edges (mutate s' a G') (EdgeView Gu) = view_edges s' (EdgeView Gu) \<and>
                 nodes (mutate s' a G') self = nodes s' self)"
proof -
  note D = ADMG_init_InrD [OF init]
  note A = accessors_built [OF D(1) D(2)]
  let ?Gd = "next_free s" and ?Gb = "Suc (next_free s)" and ?Gu = "Suc (Suc (next_free s))"
  have reg: "snd ` set (edge_graphs self) = {?Gd, ?Gb, ?Gu}"
    unfolding D(2) by simp
  have fresh: "a \<noteq> ?Gd" "a \<noteq> ?Gb" "a \<noteq> ?Gu"
    using live by simp_all
  have cd: "d = GraphObject a \<longrightarrow>
              objs s' ?Gd = to_networkx_graph s (GraphObject a) (empty_graph True)"
    using built_store(2) [OF D(3)] by simp
  have cb: "b = GraphObject a \<longrightarrow>
              objs s' ?Gb = to_networkx_graph s (GraphObject a) (empty_graph False)"
  proof
    assume "b = GraphObject a"
    with live have "data_live s b" by simp
    from built_store_live(1) [OF D(3) this] \<open>b = GraphObject a\<close>
    show "objs s' ?Gb = to_networkx_graph s (GraphObject a) (empty_graph False)" by simp
  qed
  have cu: "u = GraphObject a \<longrightarrow>
              objs s' ?Gu = to_networkx_graph s (GraphObject a) (empty_graph False)"
  proof
    assume "u = GraphObject a"
    with live have "data_live s u" by simp
    from built_store_live(2) [OF D(3) this] \<open>u = GraphObject a\<close>
    show "objs s' ?Gu = to_networkx_graph s (GraphObject a) (empty_graph False)" by simp
  qed
  have frame: "objs (mutate s' a G') ?Gd = objs s' ?Gd \<and>
               objs (mutate s' a G') ?Gb = objs s' ?Gb \<and>
               objs (mutate s' a G') ?Gu = objs s' ?Gu \<and>
               view_edges (mutate s' a G') (EdgeView ?Gd) = view_edges s' (EdgeView ?Gd) \<and>
               view_edges (mutate s' a G') (EdgeView ?Gb) = view_edges s' (EdgeView ?Gb) \<and>
               view_edges (mutate s' a G') (EdgeView ?Gu) = view_edges s' (EdgeView ?Gu) \<and>
               nodes (mutate s' a G') self = nodes s' self" for G'
  proof -
    have o: "objs (mutate s' a G') ?Gd = objs s' ?Gd"
      "objs (mutate s' a G') ?Gb = objs s' ?Gb"
      "objs (mutate s' a G') ?Gu = objs s' ?Gu"
      using fresh by (simp_all add: objs_mutate)
    have n: "nodes (mutate s' a G') self = nodes s' self"
      unfolding D(2) nodes_built o ..
    show ?thesis using o n by (simp add: view_edges_def)
  qed
  from A(1-6) reg fresh cd cb cu frame show ?thesis by blast
qed


text \<open>
  The caller holds the directed graph \<open>1 \<rightarrow> 2\<close> at address 0 and constructs an ADMG from
  it; afterwards the caller empties that graph.
\<close>

theorem C8_subgraphs_not_aliased_witness:
  "\<exists>self s' Gd.
     ADMG_init (snd (nx_DiGraph store0 (EdgeList [(1::nat, 2)]))) (GraphObject 0) NoData NoData
       ''directed'' ''bidirected'' ''undirected'' [] = Inr (self, s') \<and>
     sub_directed_graph self = Inr Gd \<and> Gd \<noteq> 0 \<and>
     edges (objs (mutate s' 0 (empty_graph True)) Gd) = {(1, 2)} \<and>
     edges (objs (mutate s' 0 (empty_graph True)) 0) = {} \<and>
     nodes (mutate s' 0 (empty_graph True)) self = {1, 2}"
proof -
  let ?s = "snd (nx_DiGraph store0 (EdgeList [(1::nat, 2)]))"
  have o0: "objs ?s 0 = to_networkx_graph store0 (EdgeList [(1::nat, 2)]) (empty_graph True)"
    by (simp add: objs_nx_DiGraph store0_def)
  have e0: "set (data_pairs ?s (GraphObject 0)) = {(1::nat, 2)}"
    unfolding data_of_GraphObject o0 edges_DiGraph by simp
  have n0: "set (data_nodes ?s (GraphObject 0)) = {1::nat, 2}"
    unfolding data_of_GraphObject o0 nodes_of_to_networkx_graph by auto
  have "acyclic (set [(1::nat, 2)])" by code_simp
  then have "acyclic (set (data_pairs ?s (GraphObject 0)))"
    unfolding e0 by simp
  then have "\<exists>self s'. ADMG_init ?s (GraphObject 0) NoData NoData
       ''directed'' ''bidirected'' ''undirected'' [] = Inr (self, s')"
    by (simp only: ADMG_init_eq2 edges_DiGraph) simp
  then obtain self s' where init: "ADMG_init ?s (GraphObject 0) NoData NoData
       ''directed'' ''bidirected'' ''undirected'' [] = Inr (self, s')"
    by blast
  have live: "0 < next_free ?s" by simp
  have "\<exists>Gd. sub_directed_graph self = Inr Gd \<and> Gd \<noteq> 0 \<and>
          objs s' Gd = to_networkx_graph ?s (GraphObject 0) (empty_graph True) \<and>
          objs (mutate s' 0 (empty_graph True)) Gd = objs s' Gd \<and>
          nodes (mutate s' 0 (empty_graph True)) self = nodes s' self"
    using C8_subgraphs_not_aliased [OF init live]
  proof (elim exE conjE)
    fix Gd Gb Gu
    assume 1: "sub_directed_graph self = Inr Gd" and 2: "0 \<noteq> Gd"
      and 3: "GraphObject 0 = GraphObject 0 \<longrightarrow>
                objs s' Gd = to_networkx_graph ?s (GraphObject 0) (empty_graph True)"
      and 4: "\<forall>G'. objs (mutate s' 0 G') Gd = objs s' Gd \<and>
                 objs (mutate s' 0 G') Gb = objs s' Gb \<and>
                 objs (mutate s' 0 G') Gu = objs s' Gu \<and>
                 view_edges (mutate s' 0 G') (EdgeView Gd) = view_edges s' (EdgeView Gd) \<and>
                 view_edges (mutate s' 0 G') (EdgeView Gb) = view_edges s' (EdgeView Gb) \<and>
                 view_edges (mutate s' 0 G') (EdgeView Gu) = view_edges s' (EdgeView Gu) \<and>
                 nodes (mutate s' 0 G') self = nodes s' self"
    from 2 have 2: "Gd \<noteq> 0" by simp
    from 3 have 3: "objs s' Gd = to_networkx_graph ?s (GraphObject 0) (empty_graph True)"
      by simp
    from 4 have 5: "objs (mutate s' 0 (empty_graph True)) Gd = objs s' Gd"
      and 6: "nodes (mutate s' 0 (empty_graph True)) self = nodes s' self"
      by simp_all
    show ?thesis
      by (intro exI conjI) (rule 1 2 3 5 6)+
  qed
  then obtain Gd where G: "sub_directed_graph self = Inr Gd" "Gd \<noteq> 0"
    and G6: "objs s' Gd = to_networkx_graph ?s (GraphObject 0) (empty_graph True)"
    and F: "objs (mutate s' 0 (empty_graph True)) Gd = objs s' Gd"
      "nodes (mutate s' 0 (empty_graph True)) self = nodes s' self"
    by (elim exE conjE)
  note D = ADMG_init_InrD [OF init]
  have gd: "Gd = next_free ?s"
    using G(1) accessors_built(1) [OF D(1) D(2)] by simp
  have ob: "objs s' (Suc (next_free ?s)) = to_networkx_graph ?s NoData (empty_graph False)"
    using built_store_live(1) [OF D(3)] by simp
  have ou: "objs s' (Suc (Suc (next_free ?s))) = to_networkx_graph ?s NoData (empty_graph False)"
    using built_store_live(2) [OF D(3)] by simp
  have nd: "nodes_of (objs s' Gd) = {1, 2}"
    unfolding G6 nodes_of_to_networkx_graph e0 n0 by auto
  have "nodes s' self = {1, 2}"
    unfolding D(2) nodes_built using nd ob ou
    by (simp add: gd nodes_of_to_networkx_graph)
  then have n: "nodes (mutate s' 0 (empty_graph True)) self = {1, 2}"
    using F(2) by simp
  have e: "edges (objs (mutate s' 0 (empty_graph True)) Gd) = {(1, 2)}"
    unfolding F(1) G6 edges_DiGraph e0 ..
  have z: "edges (objs (mutate s' 0 (empty_graph True)) 0) = {}"
    by (simp add: objs_mutate)
  show ?thesis
    by (intro exI conjI) (rule init G e z n)+
qed


subsection \<open>Role names and accessors\<close>

text \<open>
  Claim C10: in an ADMG constructed with pairwise distinct role names, the registry holds
  under each role name the graph created for that role (a directed graph filled from the
  directed input under the directed name, undirected graphs under the other two), every
  \<^verbatim>\<open>sub_..._graph()\<close> returns the graph registered under the stored role name, and every
  \<^verbatim>\<open>..._edges()\<close> returns the edge view of that same graph.
\<close>

theorem C10_role_accessors:
  assumes names: "distinct [dn, bn, un]"
    and init: "ADMG_init s d b u dn bn un attr = Inr (self, s')"
  shows "\<exists>Gd Gb Gu.
           directed_name self = dn \<and> bidirected_name self = bn \<and> undirected_name self = un \<and>
           map_of (edge_graphs self) dn = Some Gd \<and>
           map_of (edge_graphs self) bn = Some Gb \<and>
           map_of (edge_graphs self) un = Some Gu \<and>
           Gd = fst (nx_DiGraph s d) \<and>
           objs s' Gd = to_networkx_graph s d (empty_graph True) \<and>
           is_directed (objs s' Gd) \<and> \<not> is_directed (objs s' Gb) \<and> \<not> is_directed (objs s' Gu) \<and>
           sub_directed_graph self = Inr Gd \<and> sub_bidirected_graph self = Inr Gb \<and>
           sub_undirected_graph self = Inr Gu \<and>
           directed_edges self = Inr (EdgeView Gd) \<and> bidirected_edges self = Inr (EdgeView Gb) \<and>
           undirected_edges self = Inr (EdgeView Gu) \<and>
           view_edges s' (EdgeView Gd) = edges (objs s' Gd) \<and>
           view_edges s' (EdgeView Gb) = edges (objs s' Gb) \<and>
           view_edges s' (EdgeView Gu) = edges (objs s' Gu)"
proof -
  note D = ADMG_init_InrD [OF init]
  note A = accessors_built [OF D(1) D(2)]
  note B = built_store [OF D(3)]
  let ?Gd = "next_free s" and ?Gb = "Suc (next_free s)" and ?Gu = "Suc (Suc (next_free s))"
  have n: "directed_name self = dn" "bidirected_name self = bn" "undirected_name self = un"
    unfolding D(2) by simp_all
  have r: "map_of (edge_graphs self) dn = Some ?Gd" "map_of (edge_graphs self) bn = Some ?Gb"
    "map_of (edge_graphs self) un = Some ?Gu"
    using names unfolding D(2) by auto
  have c: "?Gd = fst (nx_DiGraph s d)" by simp
  have k: "is_directed (objs s' ?Gd)" "\<not> is_directed (objs s' ?Gb)" "\<not> is_directed (objs s' ?Gu)"
    by (simp_all add: B(2) B(3) B(4))
  have v: "view_edges s' (EdgeView ?Gd) = edges (objs s' ?Gd)"
    "view_edges s' (EdgeView ?Gb) = edges (objs s' ?Gb)"
    "view_edges s' (EdgeView ?Gu) = edges (objs s' ?Gu)"
    by (simp_all add: view_edges_def)
  show ?thesis
    by (intro exI conjI) (rule n r c B(2) k A(1-6) v)+
qed

text \<open>
  \<^verbatim>\<open>ADMG([(1, 2)], [(1, 3)], None, 'causal', 'confounded', 'selection')\<close>.
\<close>

theorem C10_role_accessors_witness:
  "\<exists>self s' Gd Gb Gu.
     ADMG_init store0 (EdgeList [(1::nat, 2)]) (EdgeList [(1, 3)]) NoData
       ''causal'' ''confounded'' ''selection'' [] = Inr (self, s') \<and>
     map_of (edge_graphs self) ''causal'' = Some Gd \<and>
     map_of (edge_graphs self) ''confounded'' = Some Gb \<and>
     map_of (edge_graphs self) ''selection'' = Some Gu \<and>
     sub_directed_graph self = Inr Gd \<and> sub_bidirected_graph self = Inr Gb \<and>
     sub_undirected_graph self = Inr Gu \<and>
     directed_edges self = Inr (EdgeView Gd) \<and> bidirected_edges self = Inr (EdgeView Gb) \<and>
     undirected_edges self = Inr (EdgeView Gu) \<and>
     view_edges s' (EdgeView Gd) = {(1, 2)}"
proof -
  have names: "distinct [''causal'', ''confounded'', ''selection'']" by simp
  have "acyclic (set [(1::nat, 2)])" by code_simp
  then have "\<exists>self s'. ADMG_init store0 (EdgeList [(1::nat, 2)]) (EdgeList [(1, 3)]) NoData
       ''causal'' ''confounded'' ''selection'' [] = Inr (self, s')"
    by (simp add: ADMG_init_eq2 edges_DiGraph)
  then obtain self s' where init:
    "ADMG_init store0 (EdgeList [(1::nat, 2)]) (EdgeList [(1, 3)]) NoData
       ''causal'' ''confounded'' ''selection'' [] = Inr (self, s')"
    by (elim exE)
  show ?thesis
    using C10_role_accessors [OF names init]
  proof (elim exE conjE)
    fix Gd Gb Gu
    assume 1: "map_of (edge_graphs self) ''causal'' = Some Gd"
      "map_of (edge_graphs self) ''confounded'' = Some Gb"
      "map_of (edge_graphs self) ''selection'' = Some Gu"
      "sub_directed_graph self = Inr Gd" "sub_bidirected_graph self = Inr Gb"
      "sub_undirected_graph self = Inr Gu"
      "directed_edges self = Inr (EdgeView Gd)" "bidirected_edges self = Inr (EdgeView Gb)"
      "undirected_edges self = Inr (EdgeView Gu)"
    assume 2: "view_edges s' (EdgeView Gd) = edges (objs s' Gd)"
      and 3: "objs s' Gd = to_networkx_graph store0 (EdgeList [(1::nat, 2)]) (empty_graph True)"
    have 4: "view_edges s' (EdgeView Gd) = {(1, 2)}"
      unfolding 2 3 edges_DiGraph by simp
    show ?thesis
      by (intro exI conjI) (rule init 1 4)+
  qed
qed

subsection \<open>Construction without edges\<close>

text \<open>
  Claim C9. \<^verbatim>\<open>ADMG()\<close> always succeeds; the registry then holds exactly the names
  \<open>directed\<close>, \<open>bidirected\<close> and \<open>undirected\<close>, each with a graph that has no node and no
  edge; the three edge views and the node view are empty. \<^verbatim>\<open>c_components()\<close>, however,
  does not produce the empty sequence that \<^verbatim>\<open>nx.connected_components\<close> gives for the
  bidirected sub-graph: line 134 passes the bound method \<^verbatim>\<open>self.sub_bidirected_graph\<close>,
  and the call ends in \<open>AttributeError\<close>.
\<close>

theorem C9_default_construction:
  "\<exists>self s' Gd Gb Gu.
     ADMG_default s NoData NoData NoData = Inr (self, s') \<and>
     map fst (edge_graphs self) = [''directed'', ''bidirected'', ''undirected''] \<and>
     sub_directed_graph self = Inr Gd \<and> sub_bidirected_graph self = Inr Gb \<and>
     sub_undirected_graph self = Inr Gu \<and>
     objs s' Gd = empty_graph True \<and> objs s' Gb = empty_graph False \<and>
     objs s' Gu = empty_graph False \<and>
     directed_edges self = Inr (EdgeView Gd) \<and> bidirected_edges self = Inr (EdgeView Gb) \<and>
     undirected_edges self = Inr (EdgeView Gu) \<and>
     view_edges s' (EdgeView Gd) = {} \<and> view_edges s' (EdgeView Gb) = {} \<and>
     view_edges s' (EdgeView Gu) = {} \<and> nodes s' self = {} \<and>
     nx_connected_components s' (GraphRef Gb) = Inr [] \<and>
     c_components s' self = Inl AttributeError"
proof -
  have e: "to_networkx_graph t NoData G = G" for t :: "'a store" and G
    by (simp add: to_networkx_graph_def add_nodes_from_def add_edges_from_def)
  have "acyclic (edges (to_networkx_graph s NoData (empty_graph True)))"
    by (simp add: e acyclic_def)
  then have "\<exists>self s'. ADMG_default s NoData NoData NoData = Inr (self, s')"
    by (simp add: ADMG_default_def ADMG_init_eq2)
  then obtain self s' where init: "ADMG_default s NoData NoData NoData = Inr (self, s')"
    by (elim exE)
  note D = ADMG_init_InrD [OF init [unfolded ADMG_default_def]]
  note A = accessors_built [OF D(1) D(2)]
  note B = built_store [OF D(3), unfolded e]
  let ?Gd = "next_free s" and ?Gb = "Suc (next_free s)" and ?Gu = "Suc (Suc (next_free s))"
  have r: "map fst (edge_graphs self) = [''directed'', ''bidirected'', ''undirected'']"
    unfolding D(2) by simp
  have v: "view_edges s' (EdgeView ?Gd) = {}" "view_edges s' (EdgeView ?Gb) = {}"
    "view_edges s' (EdgeView ?Gu) = {}"
    by (simp_all add: view_edges_def B(2) B(3) B(4))
  have n: "nodes s' self = {}"
    unfolding D(2) nodes_built by (simp add: B(2) B(3) B(4))
  have c: "nx_connected_components s' (GraphRef ?Gb) = Inr []"
    by (simp add: nx_connected_components_def B(3) empty_graph_def)
  show ?thesis
    by (intro exI conjI) (rule init r A(1-6) B(2) B(3) B(4) v n c mixin_fault(5))+
qed


subsection \<open>What networkx answers on the sub-graphs themselves\<close>

text \<open>
  The queries of the claims C2 to C5, asked of a graph object rather than of the
  bound method: these are the answers the mixin would pass on if it called the accessor.
\<close>

lemma nx_ancestors_graph:
  assumes "source \<in> nodes_of (objs s G)"
  shows "\<exists>A. nx_ancestors s (GraphRef G) source = Inr A \<and> source \<notin> A \<and>
           (\<forall>v. v \<in> A \<longleftrightarrow>
              v \<in> nodes_of (objs s G) \<and> v \<noteq> source \<and> (v, source) \<in> (edges (objs s G))\<^sup>+)"
  using assms by (auto simp: nx_ancestors_def)

lemma nx_descendants_graph:
  assumes "source \<in> nodes_of (objs s G)"
  shows "\<exists>A. nx_descendants s (GraphRef G) source = Inr A \<and> source \<notin> A \<and>
           (\<forall>v. v \<in> A \<longleftrightarrow>
              v \<in> nodes_of (objs s G) \<and> v \<noteq> source \<and> (source, v) \<in> (edges (objs s G))\<^sup>+)"
  using assms by (auto simp: nx_descendants_def)

lemma nx_ancestors_missing:
  assumes "source \<notin> nodes_of (objs s G)"
  shows "nx_ancestors s (GraphRef G) source = Inl NetworkXError"
    and "nx_descendants s (GraphRef G) source = Inl NetworkXError"
  using assms by (simp_all add: nx_ancestors_def nx_descendants_def)

lemma nx_ancestors_transitive:
  assumes acyc: "acyclic (edges (objs s G))"
    and ab: "nx_ancestors s (GraphRef G) b = Inr B" "a \<in> B"
    and bc: "nx_ancestors s (GraphRef G) c = Inr C" "b \<in> C"
  shows "a \<in> C"
proof -
  let ?E = "edges (objs s G)"
  from ab have 1: "a \<in> nodes_of (objs s G)" "(a, b) \<in> ?E\<^sup>+"
    by (auto simp: nx_ancestors_def split: if_splits)
  from bc have 2: "(b, c) \<in> ?E\<^sup>+" and C: "C = {v \<in> nodes_of (objs s G). (v, c) \<in> ?E\<^sup>+} - {c}"
    by (auto simp: nx_ancestors_def split: if_splits)
  from 1(2) 2 have 3: "(a, c) \<in> ?E\<^sup>+" by (rule trancl_trans)
  have "a \<noteq> c"
  proof
    assume "a = c"
    with 3 have "(c, c) \<in> ?E\<^sup>+" by simp
    with acyc show False by (simp add: acyclic_def)
  qed
  with 1(1) 3 show ?thesis by (simp add: C)
qed

lemma successors_graph:
  assumes "is_directed (objs s G)" and "n \<in> nodes_of (objs s G)"
  shows "\<exists>xs. successors s (GraphRef G) n = Inr xs \<and>
           (\<forall>m. m \<in> set xs \<longleftrightarrow> (n, m) \<in> edges (objs s G))"
  using assms by (force simp: successors_def edges_def)

lemma predecessors_graph:
  assumes "is_directed (objs s G)" and "n \<in> nodes_of (objs s G)"
  shows "\<exists>xs. predecessors s (GraphRef G) n = Inr xs \<and>
           (\<forall>m. m \<in> set xs \<longleftrightarrow> (m, n) \<in> edges (objs s G))"
  using assms by (force simp: predecessors_def edges_def)

lemma successors_missing:
  assumes "is_directed (objs s G)" and "n \<notin> nodes_of (objs s G)"
  shows "successors s (GraphRef G) n = Inl NetworkXError"
    and "predecessors s (GraphRef G) n = Inl NetworkXError"
  using assms by (simp_all add: successors_def predecessors_def)

text \<open>
  Connected components of an undirected graph: with a symmetric edge relation,
  being connected is an equivalence, and the loop of \<open>components_from\<close> yields every
  class once.
\<close>

lemma component_of_self: "v \<in> nodes_of G \<Longrightarrow> v \<in> component_of G v"
  by (simp add: component_of_def)

lemma component_of_subset: "component_of G v \<subseteq> nodes_of G"
  by (auto simp: component_of_def)

lemma component_of_rtrancl:
  "component_of G v = {w \<in> nodes_of G. (v, w) \<in> (edges G)\<^sup>*}"
  by (auto simp: component_of_def rtrancl_eq_or_trancl)

lemma component_of_eq:
  assumes "sym (edges G)" and "w \<in> component_of G v"
  shows "component_of G w = component_of G v"
proof -
  from assms(2) have vw: "(v, w) \<in> (edges G)\<^sup>*"
    by (simp add: component_of_rtrancl)
  from assms(1) have "sym ((edges G)\<^sup>*)" by (rule sym_rtrancl)
  with vw have wv: "(w, v) \<in> (edges G)\<^sup>*" by (auto dest: symD)
  show ?thesis
    unfolding component_of_rtrancl
    using vw wv by (auto intro: rtrancl_trans)
qed


lemma component_of_disjoint_seen:
  assumes sy: "sym (edges G)"
    and closed: "\<And>w. w \<in> seen \<Longrightarrow> w \<in> nodes_of G \<Longrightarrow> component_of G w \<subseteq> seen"
    and v: "v \<in> nodes_of G" "v \<notin> seen"
  shows "component_of G v \<inter> seen = {}"
proof (rule ccontr)
  assume "component_of G v \<inter> seen \<noteq> {}"
  then obtain x where x: "x \<in> component_of G v" "x \<in> seen" by blast
  from x(1) have "x \<in> nodes_of G" by (simp add: component_of_def)
  with x(2) have "component_of G x \<subseteq> seen" by (rule closed)
  moreover from sy x(1) have "component_of G x = component_of G v" by (rule component_of_eq)
  moreover from v(1) have "v \<in> component_of G v" by (rule component_of_self)
  ultimately show False using v(2) by blast
qed

lemma closed_extend:
  assumes sy: "sym (edges G)"
    and closed: "\<And>w. w \<in> seen \<Longrightarrow> w \<in> nodes_of G \<Longrightarrow> component_of G w \<subseteq> seen"
    and w: "w \<in> seen \<union> component_of G v" "w \<in> nodes_of G"
  shows "component_of G w \<subseteq> seen \<union> component_of G v"
proof (cases "w \<in> seen")
  case True
  then have "component_of G w \<subseteq> seen" using w(2) by (rule closed)
  then show ?thesis by blast
next
  case False
  with w(1) have "w \<in> component_of G v" by blast
  with sy have "component_of G w = component_of G v" by (rule component_of_eq)
  then show ?thesis by blast
qed

lemma components_from_members:
  assumes sy: "sym (edges G)"
  shows "(\<And>w. w \<in> seen \<Longrightarrow> w \<in> nodes_of G \<Longrightarrow> component_of G w \<subseteq> seen) \<Longrightarrow>
         set vs \<subseteq> nodes_of G \<Longrightarrow> A \<in> set (components_from G seen vs) \<Longrightarrow>
         A \<inter> seen = {} \<and> (\<exists>v \<in> set vs. A = component_of G v)"
proof (induction vs arbitrary: seen)
  case Nil
  then show ?case by simp
next
  case (Cons v vs)
  from Cons.prems(2) have v: "v \<in> nodes_of G" and vs: "set vs \<subseteq> nodes_of G" by simp_all
  show ?case
  proof (cases "v \<in> seen")
    case True
    with Cons.prems(3) have "A \<in> set (components_from G seen vs)" by simp
    from Cons.IH [OF Cons.prems(1) vs this] show ?thesis by simp
  next
    case False
    with Cons.prems(3) consider "A = component_of G v"
      | "A \<in> set (components_from G (seen \<union> component_of G v) vs)" by auto
    then show ?thesis
    proof cases
      case 1
      with component_of_disjoint_seen [OF sy Cons.prems(1) v False] show ?thesis by simp
    next
      case 2
      have "A \<inter> (seen \<union> component_of G v) = {} \<and> (\<exists>v \<in> set vs. A = component_of G v)"
        by (rule Cons.IH [OF closed_extend [OF sy Cons.prems(1)] vs 2])
      then show ?thesis by auto
    qed
  qed
qed

lemma components_from_cover:
  "set vs \<subseteq> nodes_of G \<Longrightarrow> set vs \<subseteq> seen \<union> \<Union> (set (components_from G seen vs))"
proof (induction vs arbitrary: seen)
  case Nil
  then show ?case by simp
next
  case (Cons v vs)
  from Cons.prems have v: "v \<in> component_of G v" and vs: "set vs \<subseteq> nodes_of G"
    by (simp_all add: component_of_self)
  show ?case
  proof (cases "v \<in> seen")
    case True
    with Cons.IH [OF vs, of seen] show ?thesis by auto
  next
    case False
    with Cons.IH [OF vs, of "seen \<union> component_of G v"] v show ?thesis by auto
  qed
qed

lemma components_from_disjoint:
  assumes sy: "sym (edges G)"
  shows "(\<And>w. w \<in> seen \<Longrightarrow> w \<in> nodes_of G \<Longrightarrow> component_of G w \<subseteq> seen) \<Longrightarrow>
         set vs \<subseteq> nodes_of G \<Longrightarrow>
         distinct (components_from G seen vs) \<and>
         (\<forall>A \<in> set (components_from G seen vs). \<forall>B \<in> set (components_from G seen vs).
            A \<noteq> B \<longrightarrow> A \<inter> B = {})"
proof (induction vs arbitrary: seen)
  case Nil
  then show ?case by simp
next
  case (Cons v vs)
  from Cons.prems(2) have v: "v \<in> nodes_of G" and vs: "set vs \<subseteq> nodes_of G" by simp_all
  show ?case
  proof (cases "v \<in> seen")
    case True
    with Cons.IH [OF Cons.prems(1) vs] show ?thesis by simp
  next
    case False
    let ?C = "component_of G v"
    let ?rest = "components_from G (seen \<union> ?C) vs"
    note cl = closed_extend [OF sy Cons.prems(1)]
    have IH: "distinct ?rest \<and> (\<forall>A \<in> set ?rest. \<forall>B \<in> set ?rest. A \<noteq> B \<longrightarrow> A \<inter> B = {})"
      by (rule Cons.IH [OF cl vs])
    have vC: "v \<in> ?C" using v by (rule component_of_self)
    have away: "A \<inter> ?C = {}" if "A \<in> set ?rest" for A
      using components_from_members [OF sy cl vs that] by blast
    have notin: "?C \<notin> set ?rest"
    proof
      assume "?C \<in> set ?rest"
      then have "?C \<inter> ?C = {}" by (rule away)
      with vC show False by blast
    qed
    have eq: "components_from G seen (v # vs) = ?C # ?rest"
      using False by simp
    have d: "distinct (?C # ?rest)" using IH notin by simp
    have p: "\<forall>A \<in> set (?C # ?rest). \<forall>B \<in> set (?C # ?rest). A \<noteq> B \<longrightarrow> A \<inter> B = {}"
    proof (intro ballI impI)
      fix A B assume AB: "A \<in> set (?C # ?rest)" "B \<in> set (?C # ?rest)" "A \<noteq> B"
      show "A \<inter> B = {}"
      proof (cases "A = ?C")
        case True
        with AB have "B \<in> set ?rest" by auto
        then have "B \<inter> ?C = {}" by (rule away)
        with True show ?thesis by blast
      next
        case False
        with AB(1) have A: "A \<in> set ?rest" by simp
        show ?thesis
        proof (cases "B = ?C")
          case True
          with away [OF A] show ?thesis by simp
        next
          case False
          with AB(2) have "B \<in> set ?rest" by simp
          with IH A AB(3) show ?thesis by blast
        qed
      qed
    qed
    show ?thesis unfolding eq using d p by (rule conjI)
  qed
qed

lemma nx_connected_components_partition:
  assumes und: "\<not> is_directed (objs s G)" and sy: "sym (edges (objs s G))"
  shows "\<exists>cs. nx_connected_components s (GraphRef G) = Inr cs \<and>
           \<Union> (set cs) = nodes_of (objs s G) \<and> distinct cs \<and>
           (\<forall>A \<in> set cs. \<forall>B \<in> set cs. A \<noteq> B \<longrightarrow> A \<inter> B = {}) \<and>
           (\<forall>A \<in> set cs. \<exists>v \<in> nodes_of (objs s G). A = component_of (objs s G) v)"
proof -
  let ?G = "objs s G"
  let ?cs = "components_from ?G {} (node_list ?G)"
  have vs: "set (node_list ?G) \<subseteq> nodes_of ?G" by (simp add: nodes_of_def)
  have cl: "\<And>w. w \<in> {} \<Longrightarrow> w \<in> nodes_of ?G \<Longrightarrow> component_of ?G w \<subseteq> {}" by simp
  have mem: "\<forall>A \<in> set ?cs. \<exists>v \<in> nodes_of ?G. A = component_of ?G v"
  proof
    fix A assume "A \<in> set ?cs"
    from components_from_members [OF sy cl vs this]
    show "\<exists>v \<in> nodes_of ?G. A = component_of ?G v" by (simp add: nodes_of_def)
  qed
  have sub: "\<Union> (set ?cs) \<subseteq> nodes_of ?G"
  proof
    fix x assume "x \<in> \<Union> (set ?cs)"
    then obtain A where A: "A \<in> set ?cs" "x \<in> A" by blast
    from mem A(1) obtain v where "A = component_of ?G v" by blast
    with A(2) show "x \<in> nodes_of ?G" by (simp add: component_of_def)
  qed
  have cov: "nodes_of ?G \<subseteq> \<Union> (set ?cs)"
    using components_from_cover [OF vs, of "{}"] by (simp add: nodes_of_def)
  have 1: "nx_connected_components s (GraphRef G) = Inr ?cs"
    using und by (simp add: nx_connected_components_def)
  have 2: "\<Union> (set ?cs) = nodes_of ?G" using sub cov by (rule equalityI)
  note 3 = components_from_disjoint [OF sy cl vs]
  have d: "distinct ?cs" using 3 by (rule conjunct1)
  have p: "\<forall>A \<in> set ?cs. \<forall>B \<in> set ?cs. A \<noteq> B \<longrightarrow> A \<inter> B = {}"
    using 3 by (rule conjunct2)
  show ?thesis
    using 1 2 d p mem by (intro exI conjI)
qed


text \<open>
  For every constructed ADMG, the graphs that the called accessors return meet the
  conditions of the lemmas above: the directed sub-graph is directed and acyclic, the
  bidirected sub-graph is undirected with a symmetric edge relation.
\<close>

lemma ADMG_directed_subgraph:
  assumes init: "ADMG_init s d b u dn bn un attr = Inr (self, s')"
  shows "\<exists>G. sub_directed_graph self = Inr G \<and> is_directed (objs s' G) \<and>
           acyclic (edges (objs s' G))"
proof -
  note D = ADMG_init_InrD [OF init]
  have o: "objs s' (next_free s) = to_networkx_graph s d (empty_graph True)"
    by (rule built_store(2) [OF D(3)])
  have "is_directed (objs s' (next_free s))" by (simp add: o)
  moreover have "acyclic (edges (objs s' (next_free s)))" using D(4) by (simp add: o)
  ultimately show ?thesis using accessors_built(1) [OF D(1) D(2)] by (intro exI conjI)
qed

lemma ADMG_bidirected_components:
  assumes init: "ADMG_init s d b u dn bn un attr = Inr (self, s')"
  shows "\<exists>G cs. sub_bidirected_graph self = Inr G \<and>
           nx_connected_components s' (GraphRef G) = Inr cs \<and>
           \<Union> (set cs) = nodes_of (objs s' G) \<and> distinct cs \<and>
           (\<forall>A \<in> set cs. \<forall>B \<in> set cs. A \<noteq> B \<longrightarrow> A \<inter> B = {})"
proof -
  note D = ADMG_init_InrD [OF init]
  let ?G = "Suc (next_free s)"
  have o: "objs s' ?G = to_networkx_graph (snd (nx_DiGraph s d)) b (empty_graph False)"
    by (rule built_store(3) [OF D(3)])
  have und: "\<not> is_directed (objs s' ?G)" by (simp add: o)
  have sy: "sym (edges (objs s' ?G))"
    unfolding o edges_Graph by (auto simp: sym_def)
  from nx_connected_components_partition [OF und sy] obtain cs where
    cs: "nx_connected_components s' (GraphRef ?G) = Inr cs"
      "\<Union> (set cs) = nodes_of (objs s' ?G)" "distinct cs"
      "\<forall>A \<in> set cs. \<forall>B \<in> set cs. A \<noteq> B \<longrightarrow> A \<inter> B = {}"
    by (elim exE conjE)
  show ?thesis
    using accessors_built(2) [OF D(1) D(2)] cs by (intro exI conjI)
qed


subsection \<open>The queries of AncestralMixin and c\_components on an ADMG\<close>

text \<open>
  Claim C2 does not hold of the code. Lines 10 and 14 hand \<^verbatim>\<open>self.sub_directed_graph\<close>,
  the bound method, to \<^verbatim>\<open>nx.ancestors\<close> and \<^verbatim>\<open>nx.descendants\<close>. On the ADMG with the
  directed edges \<open>1 \<rightarrow> 2 \<rightarrow> 3\<close> (scenario 1 of the specification) \<^verbatim>\<open>ancestors(3)\<close> and
  \<^verbatim>\<open>descendants(1)\<close> raise \<open>AttributeError\<close>, and so does \<^verbatim>\<open>ancestors(5)\<close> for the absent
  node 5. Given the graph that \<^verbatim>\<open>self.sub_directed_graph()\<close> returns, networkx answers
  as the claim says: \<open>{1, 2}\<close>, \<open>{2, 3}\<close>, and \<open>NetworkXError\<close> for node 5.
\<close>

theorem C2_ancestors_descendants_raise:
  "(case ADMG_default store0 (EdgeList [(1::nat, 2), (2, 3)]) NoData NoData of
      Inl e \<Rightarrow> False
    | Inr (self, s) \<Rightarrow>
        ancestors s self 3 = Inl AttributeError \<and>
        descendants s self 1 = Inl AttributeError \<and>
        ancestors s self 5 = Inl AttributeError \<and>
        (case sub_directed_graph self of
           Inl e \<Rightarrow> False
         | Inr G \<Rightarrow>
             nx_ancestors s (GraphRef G) 3 = Inr {1, 2} \<and>
             nx_descendants s (GraphRef G) 1 = Inr {2, 3} \<and>
             nx_ancestors s (GraphRef G) 5 = Inl NetworkXError))"
  by code_simp

text \<open>
  Claim C3 does not hold of the code. Lines 35 and 56 look up \<^verbatim>\<open>successors\<close> and
  \<^verbatim>\<open>predecessors\<close> on the bound method \<^verbatim>\<open>self.sub_directed_graph\<close>. On the ADMG with
  the directed edge \<open>1 \<rightarrow> 2\<close>, the bidirected edge \<open>1 \<leftrightarrow> 3\<close> and the undirected edge
  \<open>1 - 4\<close>, \<^verbatim>\<open>children(1)\<close> and \<^verbatim>\<open>parents(2)\<close> raise \<open>AttributeError\<close>: node 2 is not
  produced as a child of 1, nor 1 as a parent of 2. On the graph that
  \<^verbatim>\<open>self.sub_directed_graph()\<close> returns, the successors of 1 are \<open>[2]\<close> and the
  predecessors of 2 are \<open>[1]\<close>.
\<close>

theorem C3_children_parents_raise:
  "(case ADMG_default store0 (EdgeList [(1::nat, 2)]) (EdgeList [(1, 3)]) (EdgeList [(1, 4)]) of
      Inl e \<Rightarrow> False
    | Inr (self, s) \<Rightarrow>
        children s self 1 = Inl AttributeError \<and>
        parents s self 2 = Inl AttributeError \<and>
        (case sub_directed_graph self of
           Inl e \<Rightarrow> False
         | Inr G \<Rightarrow>
             (1, 2) \<in> edges (objs s G) \<and>
             successors s (GraphRef G) 1 = Inr [2] \<and>
             predecessors s (GraphRef G) 2 = Inr [1]))"
  by code_simp

text \<open>
  Claim C4 does not hold of the code. Line 134 hands the bound method
  \<^verbatim>\<open>self.sub_bidirected_graph\<close> to \<^verbatim>\<open>nx.connected_components\<close>. With the bidirected edges
  \<open>1 \<leftrightarrow> 2\<close>, \<open>2 \<leftrightarrow> 3\<close>, \<open>4 \<leftrightarrow> 5\<close> (scenario 3 of the specification) \<^verbatim>\<open>c_components()\<close>
  ends in \<open>AttributeError\<close>; on the graph that \<^verbatim>\<open>self.sub_bidirected_graph()\<close> returns,
  networkx gives the components \<open>{1, 2, 3}\<close> and \<open>{4, 5}\<close>.
\<close>

theorem C4_c_components_raise:
  "(case ADMG_default store0 NoData (EdgeList [(1::nat, 2), (2, 3), (4, 5)]) NoData of
      Inl e \<Rightarrow> False
    | Inr (self, s) \<Rightarrow>
        c_components s self = Inl AttributeError \<and>
        (case sub_bidirected_graph self of
           Inl e \<Rightarrow> False
         | Inr G \<Rightarrow> nx_connected_components s (GraphRef G) = Inr [{1, 2, 3}, {4, 5}]))"
  by code_simp

text \<open>
  Claim C5 does not hold of the code. On the ADMG with the directed edge \<open>1 \<rightarrow> 2\<close>,
  node 5 is not in the directed sub-graph. \<^verbatim>\<open>children(5)\<close> raises \<open>AttributeError\<close>, the
  same exception as for the present node 1, because line 35 never reaches the graph;
  \<^verbatim>\<open>successors(5)\<close> on the graph that \<^verbatim>\<open>self.sub_directed_graph()\<close> returns raises
  \<open>NetworkXError\<close>, the exception for a missing node.
\<close>

theorem C5_children_missing_node:
  "(case ADMG_default store0 (EdgeList [(1::nat, 2)]) NoData NoData of
      Inl e \<Rightarrow> False
    | Inr (self, s) \<Rightarrow>
        children s self 5 = Inl AttributeError \<and>
        children s self 1 = Inl AttributeError \<and>
        (case sub_directed_graph self of
           Inl e \<Rightarrow> False
         | Inr G \<Rightarrow>
             5 \<notin> nodes_of (objs s G) \<and>
             successors s (GraphRef G) 5 = Inl NetworkXError))"
  by code_simp

text \<open>
  No call of \<^verbatim>\<open>ancestors\<close> or \<^verbatim>\<open>descendants\<close> on an ADMG returns a set: as relations
  read off the results of these methods, "is an ancestor of" and "is a descendant of"
  are empty on the code.
\<close>

lemma ancestors_return_no_set:
  "ancestors s self b \<noteq> Inr B" "descendants s self b \<noteq> Inr B"
  by (simp_all add: mixin_fault)

end
